theory Spec2Isabelle
  imports Main "HOL-Library.Word"
begin

section \<open>Python values\<close>

text \<open>
  \<^verbatim>\<open>search_and_book.py\<close> works on dynamically typed values: the option dictionary
  made by docopt (strings, booleans and \<^verbatim>\<open>None\<close>), the parsed JSON of two HTTP
  responses, and one \<^verbatim>\<open>datetime\<close> object. They are embedded as one datatype.
  Dictionaries are association lists in insertion order, with string keys (docopt and JSON give
  no other key), looked up from the front.

  The script never computes with a floating-point number: a JSON price is only passed to
  \<^verbatim>\<open>print\<close>. A float is kept as its 64 bits.
\<close>

type_synonym pyfloat = "64 word"

text \<open>
  A \<^verbatim>\<open>datetime\<close> made by \<^verbatim>\<open>strptime\<close> from a format with date directives only has
  its time of day at midnight; only the calendar date is kept.
\<close>

record datetime =
  year :: nat
  month :: nat
  day :: nat

datatype pyval =
    PNone
  | PBool bool
  | PInt int
  | PFloat pyfloat
  | PStr string
  | PList "pyval list"
  | PDict "(string \<times> pyval) list"
  | PDatetime datetime

type_synonym pydict = "(string \<times> pyval) list"

text \<open>
  The exceptions the script can meet. \<open>RequestError\<close> stands for whatever
  \<^verbatim>\<open>requests\<close> raises when no response arrives. \<open>OtherFormat\<close> is not a Python
  exception: it marks a date format outside the fragment of \<^verbatim>\<open>strptime\<close> and
  \<^verbatim>\<open>strftime\<close> interpreted below; the script passes no such format.
\<close>

datatype py_error = TypeError | KeyError | IndexError | ValueError | RequestError | OtherFormat

text \<open>\<^verbatim>\<open>LookupError\<close> is the base class of exactly \<^verbatim>\<open>KeyError\<close> and \<^verbatim>\<open>IndexError\<close>.\<close>

fun is_LookupError :: "py_error \<Rightarrow> bool" where
  "is_LookupError KeyError = True"
| "is_LookupError IndexError = True"
| "is_LookupError _ = False"

subsection \<open>Subscription\<close>

definition dict_get :: "pydict \<Rightarrow> string \<Rightarrow> py_error + pyval" where
  "dict_get d k = (case map_of d k of None \<Rightarrow> Inl KeyError | Some v \<Rightarrow> Inr v)"

text \<open>\<^verbatim>\<open>d[k] = v\<close>: an existing key keeps its place, a new one goes to the end.\<close>

fun dict_set :: "pydict \<Rightarrow> string \<Rightarrow> pyval \<Rightarrow> pydict" where
  "dict_set [] k v = [(k, v)]"
| "dict_set ((k', v') # d) k v = (if k' = k then (k, v) # d else (k', v') # dict_set d k v)"

text \<open>Indexing a sequence with an integer: a negative index counts from the end.\<close>

definition seq_get :: "'a list \<Rightarrow> int \<Rightarrow> py_error + 'a" where
  "seq_get xs i =
     (if 0 \<le> i \<and> i < int (length xs) then Inr (xs ! nat i)
      else if i < 0 \<and> - int (length xs) \<le> i then Inr (xs ! nat (int (length xs) + i))
      else Inl IndexError)"

text \<open>
  \<^verbatim>\<open>x[k]\<close>. A dictionary with string keys has no other key, and a list or dictionary
  used as a key is unhashable. A \<^verbatim>\<open>bool\<close> is an \<^verbatim>\<open>int\<close> and indexes a sequence.
  \<^verbatim>\<open>None\<close>, numbers and datetimes are not subscriptable.
\<close>

fun index_of :: "pyval \<Rightarrow> int option" where
  "index_of (PInt i) = Some i"
| "index_of (PBool b) = Some (if b then 1 else 0)"
| "index_of _ = None"

fun getitem :: "pyval \<Rightarrow> pyval \<Rightarrow> py_error + pyval" where
  "getitem (PDict d) (PStr k) = dict_get d k"
| "getitem (PDict d) (PList ks) = Inl TypeError"
| "getitem (PDict d) (PDict ks) = Inl TypeError"
| "getitem (PDict d) k = Inl KeyError"
| "getitem (PList xs) k = (case index_of k of None \<Rightarrow> Inl TypeError | Some i \<Rightarrow> seq_get xs i)"
| "getitem (PStr s) k =
     (case index_of k of
        None \<Rightarrow> Inl TypeError
      | Some i \<Rightarrow> (case seq_get s i of Inl e \<Rightarrow> Inl e | Inr c \<Rightarrow> Inr (PStr [c])))"
| "getitem x k = Inl TypeError"

section \<open>Runs: events and exceptions\<close>

text \<open>
  What a function of the script does besides returning: calls of \<^verbatim>\<open>print\<close> (with the
  argument values as passed) and HTTP requests (with the URL and the parameters or JSON body).
  A run is the list of these events in order and either the exception that ended it or the
  returned value.
\<close>

datatype event =
    Print "pyval list"
  | HttpGet string pydict
  | HttpPost string pyval

type_synonym 'a run = "event list \<times> (py_error + 'a)"

definition returns :: "'a \<Rightarrow> 'a run" where
  "returns x = ([], Inr x)"

definition lift :: "py_error + 'a \<Rightarrow> 'a run" where
  "lift r = ([], r)"

definition emit :: "event \<Rightarrow> unit run" where
  "emit e = ([e], Inr ())"

definition then_do :: "'a run \<Rightarrow> ('a \<Rightarrow> 'b run) \<Rightarrow> 'b run" where
  "then_do m f =
     (case m of
        (es, Inl e) \<Rightarrow> (es, Inl e)
      | (es, Inr x) \<Rightarrow> (case f x of (es', r) \<Rightarrow> (es @ es', r)))"

definition printed :: "event list \<Rightarrow> pyval list list" where
  "printed es = concat (map (\<lambda>e. case e of Print args \<Rightarrow> [args] | _ \<Rightarrow> []) es)"

section \<open>The library functions the script calls\<close>

subsection \<open>Decimal digits\<close>

definition digit_of :: "char \<Rightarrow> nat option" where
  "digit_of c =
     (let n = (of_char c :: nat) in if 48 \<le> n \<and> n \<le> 57 then Some (n - 48) else None)"

definition digit_char :: "nat \<Rightarrow> char" where
  "digit_char n = char_of (48 + n)"

text \<open>\<^verbatim>\<open>int(s)\<close> on a matched group: digits, after an optional blank.\<close>

definition num_of :: "string \<Rightarrow> nat" where
  "num_of s = foldl (\<lambda>n c. case digit_of c of None \<Rightarrow> n | Some d \<Rightarrow> 10 * n + d) 0 s"

fun dec_nat :: "nat \<Rightarrow> string" where
  "dec_nat n = (if n < 10 then [digit_char n] else dec_nat (n div 10) @ [digit_char (n mod 10)])"

declare dec_nat.simps [simp del]

text \<open>\<^verbatim>\<open>str(i)\<close> for an \<^verbatim>\<open>int\<close>.\<close>

definition str_int :: "int \<Rightarrow> string" where
  "str_int i = (if i < 0 then CHR ''-'' # dec_nat (nat (- i)) else dec_nat (nat i))"

definition pad2 :: "nat \<Rightarrow> string" where
  "pad2 n = [digit_char (n div 10 mod 10), digit_char (n mod 10)]"

subsection \<open>Calendar dates\<close>

definition is_leap :: "nat \<Rightarrow> bool" where
  "is_leap y = (y mod 4 = 0 \<and> (y mod 100 \<noteq> 0 \<or> y mod 400 = 0))"

definition days_in_month :: "nat \<Rightarrow> nat \<Rightarrow> nat" where
  "days_in_month y m =
     (if m = 2 then (if is_leap y then 29 else 28)
      else if m = 4 \<or> m = 6 \<or> m = 9 \<or> m = 11 then 30 else 31)"

text \<open>The dates \<^verbatim>\<open>datetime.datetime(y, m, d)\<close> accepts; any other raises \<^verbatim>\<open>ValueError\<close>.\<close>

definition valid_date :: "nat \<Rightarrow> nat \<Rightarrow> nat \<Rightarrow> bool" where
  "valid_date y m d =
     (1 \<le> y \<and> y \<le> 9999 \<and> 1 \<le> m \<and> m \<le> 12 \<and> 1 \<le> d \<and> d \<le> days_in_month y m)"

subsection \<open>Date formats\<close>

text \<open>
  The fragment of format strings interpreted here: the directives \<^verbatim>\<open>%Y\<close>, \<^verbatim>\<open>%m\<close>,
  \<^verbatim>\<open>%d\<close>, the escape \<^verbatim>\<open>%%\<close>, and literal characters.
\<close>

datatype directive = DY | Dm | Dd

datatype fitem = Lit char | Dir directive

definition item_of :: "char \<Rightarrow> fitem option" where
  "item_of c =
     (if c = CHR ''Y'' then Some (Dir DY)
      else if c = CHR ''m'' then Some (Dir Dm)
      else if c = CHR ''d'' then Some (Dir Dd)
      else if c = CHR ''%'' then Some (Lit (CHR ''%''))
      else None)"

fun parse_format :: "string \<Rightarrow> fitem list option" where
  "parse_format [] = Some []"
| "parse_format [c] = (if c = CHR ''%'' then None else Some [Lit c])"
| "parse_format (c # c' # r) =
     (if c = CHR ''%''
      then (case item_of c' of
              None \<Rightarrow> None
            | Some it \<Rightarrow> (case parse_format r of None \<Rightarrow> None | Some its \<Rightarrow> Some (it # its)))
      else (case parse_format (c' # r) of None \<Rightarrow> None | Some its \<Rightarrow> Some (Lit c # its)))"

subsection \<open>strptime\<close>

text \<open>
  CPython's \<^verbatim>\<open>_strptime\<close> turns the format into a regular expression, one named group per
  directive:
  \<^verbatim>\<open>
  'd': r"(?P<d>3[0-1]|[1-2]\d|0[1-9]|[1-9]| [1-9])"
  'm': r"(?P<m>1[0-2]|0[1-9]|[1-9])"
  'Y': r"(?P<Y>\d\d\d\d)"
  \<close>
  matches it at the start of the string, raises \<^verbatim>\<open>ValueError\<close> when there is no match
  or when unconverted data remains, converts each group with \<^verbatim>\<open>int\<close> (year 1900, month 1
  and day 1 when the directive is absent) and builds the date, which raises
  \<^verbatim>\<open>ValueError\<close> for a day that the month does not have.

  Every alternative of these groups is a sequence of single characters, each a digit range or one
  fixed character. Alternatives are tried in order and the matcher backtracks into a group when
  the rest of the expression fails, as \<^verbatim>\<open>re.match\<close> does. Characters are code points up
  to 255, among which \<^verbatim>\<open>\d\<close> matches the ten ASCII digits only.
\<close>

datatype atom = Rng nat nat | Ch char

fun atom_ok :: "atom \<Rightarrow> char \<Rightarrow> bool" where
  "atom_ok (Rng lo hi) c = (case digit_of c of None \<Rightarrow> False | Some n \<Rightarrow> lo \<le> n \<and> n \<le> hi)"
| "atom_ok (Ch x) c = (c = x)"

fun match_atoms :: "atom list \<Rightarrow> string \<Rightarrow> (string \<times> string) option" where
  "match_atoms [] s = Some ([], s)"
| "match_atoms (a # as) [] = None"
| "match_atoms (a # as) (c # cs) =
     (if atom_ok a c
      then (case match_atoms as cs of None \<Rightarrow> None | Some (m, r) \<Rightarrow> Some (c # m, r))
      else None)"

fun alts :: "directive \<Rightarrow> atom list list" where
  "alts DY = [[Rng 0 9, Rng 0 9, Rng 0 9, Rng 0 9]]"
| "alts Dm = [[Rng 1 1, Rng 0 2], [Rng 0 0, Rng 1 9], [Rng 1 9]]"
| "alts Dd = [[Rng 3 3, Rng 0 1], [Rng 1 2, Rng 0 9], [Rng 0 0, Rng 1 9], [Rng 1 9],
              [Ch (CHR '' ''), Rng 1 9]]"

fun first_some :: "('a \<Rightarrow> 'b option) \<Rightarrow> 'a list \<Rightarrow> 'b option" where
  "first_some f [] = None"
| "first_some f (x # xs) = (case f x of None \<Rightarrow> first_some f xs | Some y \<Rightarrow> Some y)"

fun re_match :: "fitem list \<Rightarrow> string \<Rightarrow> ((directive \<times> string) list \<times> string) option" where
  "re_match [] s = Some ([], s)"
| "re_match (Lit x # its) s =
     (case s of [] \<Rightarrow> None | c # cs \<Rightarrow> if c = x then re_match its cs else None)"
| "re_match (Dir d # its) s =
     first_some
       (\<lambda>alt. case match_atoms alt s of
                 None \<Rightarrow> None
               | Some (m, r) \<Rightarrow>
                   (case re_match its r of
                      None \<Rightarrow> None
                    | Some (caps, r') \<Rightarrow> Some ((d, m) # caps, r')))
       (alts d)"

text \<open>
  Outside the fragment: a literal letter (the expression is compiled ignoring case), white space
  (which matches any run of white space), a character beyond ASCII, and a directive used twice
  (a group name defined twice).
\<close>

definition plain_char :: "char \<Rightarrow> bool" where
  "plain_char c =
     (let n = (of_char c :: nat)
      in 33 \<le> n \<and> n \<le> 126 \<and> \<not> (65 \<le> n \<and> n \<le> 90) \<and> \<not> (97 \<le> n \<and> n \<le> 122))"

fun directives :: "fitem list \<Rightarrow> directive list" where
  "directives [] = []"
| "directives (Lit c # its) = directives its"
| "directives (Dir d # its) = d # directives its"

fun literals :: "fitem list \<Rightarrow> char list" where
  "literals [] = []"
| "literals (Lit c # its) = c # literals its"
| "literals (Dir d # its) = literals its"

definition captured :: "(directive \<times> string) list \<Rightarrow> directive \<Rightarrow> nat \<Rightarrow> nat" where
  "captured caps d dflt = (case map_of caps d of None \<Rightarrow> dflt | Some t \<Rightarrow> num_of t)"

definition strptime :: "string \<Rightarrow> string \<Rightarrow> py_error + datetime" where
  "strptime data_string format =
     (case parse_format format of
        None \<Rightarrow> Inl OtherFormat
      | Some its \<Rightarrow>
          if \<not> (distinct (directives its) \<and> list_all plain_char (literals its))
          then Inl OtherFormat
          else (case re_match its data_string of
                  None \<Rightarrow> Inl ValueError
                | Some (caps, rest) \<Rightarrow>
                    if rest \<noteq> [] then Inl ValueError
                    else (let y = captured caps DY 1900; m = captured caps Dm 1; d = captured caps Dd 1
                          in if valid_date y m d
                             then Inr \<lparr>year = y, month = m, day = d\<rparr>
                             else Inl ValueError)))"

subsection \<open>strftime\<close>

text \<open>
  \<^verbatim>\<open>datetime.strftime\<close> hands the format to the C library. \<^verbatim>\<open>%d\<close> and
  \<^verbatim>\<open>%m\<close> are the day and the month as two digits. \<^verbatim>\<open>%Y\<close> is the year as a
  decimal number, which glibc writes without padding: \<^verbatim>\<open>2021\<close>, but \<^verbatim>\<open>999\<close> for
  the year 999 and \<^verbatim>\<open>1\<close> for the year 1. A literal character is copied.
\<close>

fun render_item :: "datetime \<Rightarrow> fitem \<Rightarrow> string" where
  "render_item dt (Lit c) = [c]"
| "render_item dt (Dir DY) = dec_nat (year dt)"
| "render_item dt (Dir Dm) = pad2 (month dt)"
| "render_item dt (Dir Dd) = pad2 (day dt)"

definition strftime :: "datetime \<Rightarrow> string \<Rightarrow> py_error + string" where
  "strftime dt format =
     (case parse_format format of
        None \<Rightarrow> Inl OtherFormat
      | Some its \<Rightarrow> Inr (concat (map (render_item dt) its)))"

subsection \<open>str and print\<close>

text \<open>
  \<^verbatim>\<open>str(v)\<close>, which \<^verbatim>\<open>print\<close> and \<^verbatim>\<open>'{}'.format\<close> apply to their arguments.
  It is written out for \<^verbatim>\<open>None\<close>, booleans, integers and strings; the text of a float,
  a list, a dictionary or a datetime is left to the environment.
\<close>

record response =
  status_code :: int
  resp_text :: string

text \<open>
  The environment of a run: the two remote services seen through \<^verbatim>\<open>requests\<close> (the
  response to a request, or an exception), \<^verbatim>\<open>json.loads\<close>, and the text of compound
  values.
\<close>

record world =
  requests_get :: "string \<Rightarrow> pydict \<Rightarrow> py_error + response"
  requests_post :: "string \<Rightarrow> pyval \<Rightarrow> py_error + response"
  json_loads :: "string \<Rightarrow> py_error + pyval"
  repr_of :: "pyval \<Rightarrow> string"

definition py_str :: "world \<Rightarrow> pyval \<Rightarrow> string" where
  "py_str w v =
     (case v of
        PNone \<Rightarrow> ''None''
      | PBool b \<Rightarrow> (if b then ''True'' else ''False'')
      | PInt i \<Rightarrow> str_int i
      | PStr s \<Rightarrow> s
      | _ \<Rightarrow> repr_of w v)"

text \<open>The line a call of \<^verbatim>\<open>print\<close> writes: its arguments, separated by one blank.\<close>

fun join_blank :: "string list \<Rightarrow> string" where
  "join_blank [] = []"
| "join_blank [x] = x"
| "join_blank (x # y # zs) = x @ '' '' @ join_blank (y # zs)"

definition console :: "world \<Rightarrow> event list \<Rightarrow> string list" where
  "console w es = map (\<lambda>args. join_blank (map (py_str w) args)) (printed es)"

section \<open>The script\<close>

text \<open>
  \<^verbatim>\<open>
  passengers = [
      {
          'title': 'Mr',
          'firstName': 'John',
          'lastName': 'Doe',
          'documentID': '111',
          'email': 'test@test.com',
          'birthday': '1980-01-01'
      }
  ]
  \<close>
\<close>

definition passengers :: pyval where
  "passengers =
     PList [PDict [(''title'', PStr ''Mr''),
                   (''firstName'', PStr ''John''),
                   (''lastName'', PStr ''Doe''),
                   (''documentID'', PStr ''111''),
                   (''email'', PStr ''test@test.com''),
                   (''birthday'', PStr ''1980-01-01'')]]"

text \<open>
  \<^verbatim>\<open>
  def get_flights(payload):
      flights = requests.get('https://api.skypicker.com/flights', params=payload)

      if (flights.status_code != 200):
          print('Error while connecting to API. '
                'Response code: {}'.format(flights.status_code)
                )
          return

      return json.loads(flights.text)
  \<close>
  The two adjacent literals are one string, to which \<^verbatim>\<open>format\<close> is applied.
\<close>

definition get_flights :: "world \<Rightarrow> pydict \<Rightarrow> pyval run" where
  "get_flights w payload =
     then_do (emit (HttpGet ''https://api.skypicker.com/flights'' payload)) (\<lambda>_.
     then_do (lift (requests_get w ''https://api.skypicker.com/flights'' payload)) (\<lambda>flights.
       if status_code flights \<noteq> 200
       then then_do
              (emit (Print [PStr (''Error while connecting to API. Response code: ''
                                  @ str_int (status_code flights))]))
              (\<lambda>_. returns PNone)
       else lift (json_loads w (resp_text flights))))"

text \<open>
  \<^verbatim>\<open>
  def convert_date(date, format, type):
      if type == 'object':
          return datetime.datetime.strptime(date, format)
      elif type == 'string':
          return datetime.datetime.strftime(date, format)
      else:
          print('Unsupported convertsion')
          return
  \<close>
  \<^verbatim>\<open>strptime\<close> raises \<^verbatim>\<open>TypeError\<close> for a first argument that is not a string, and
  the unbound \<^verbatim>\<open>strftime\<close> for one that is not a datetime.
\<close>

definition convert_date :: "pyval \<Rightarrow> string \<Rightarrow> pyval \<Rightarrow> pyval run" where
  "convert_date date format type =
     (if type = PStr ''object''
      then (case date of
              PStr s \<Rightarrow> (case strptime s format of
                           Inl e \<Rightarrow> lift (Inl e)
                         | Inr dt \<Rightarrow> returns (PDatetime dt))
            | _ \<Rightarrow> lift (Inl TypeError))
      else if type = PStr ''string''
      then (case date of
              PDatetime dt \<Rightarrow> (case strftime dt format of
                                 Inl e \<Rightarrow> lift (Inl e)
                               | Inr s \<Rightarrow> returns (PStr s))
            | _ \<Rightarrow> lift (Inl TypeError))
      else then_do (emit (Print [PStr ''Unsupported convertsion''])) (\<lambda>_. returns PNone))"

text \<open>
  \<^verbatim>\<open>
  def prepare_payload(search_options):
      dateFrom = convert_date(search_options['--date'], '%Y-%m-%d', 'object')

      typeFlight = 'round' if search_options['--return'] is not None else 'oneway'
      payload = {
          'v': 3,
          'dateFrom': convert_date(dateFrom, '%d/%m/%Y', 'string'),
          'dateTo': convert_date(dateFrom, '%d/%m/%Y', 'string'),
          'flyFrom': search_options['--from'],
          'to': search_options['--to'],
          'typeFlight': typeFlight,
          'adults': 1,
          'limit': 1,
          'sort': 'price' if search_options['--cheapest'] is True else 'duration'
      }

      if typeFlight == 'round':
          payload['daysInDestinationFrom'] = search_options['--return']
          payload['daysInDestinationTo'] = payload['daysInDestinationFrom']

      return payload
  \<close>
  The entries of the dictionary display are evaluated from top to bottom.
\<close>

definition prepare_payload :: "pydict \<Rightarrow> pydict run" where
  "prepare_payload search_options =
     then_do (lift (dict_get search_options ''--date'')) (\<lambda>date.
     then_do (convert_date date ''%Y-%m-%d'' (PStr ''object'')) (\<lambda>dateFrom.
     then_do (lift (dict_get search_options ''--return'')) (\<lambda>nights.
     let typeFlight = (if nights \<noteq> PNone then ''round'' else ''oneway'') in
     then_do (convert_date dateFrom ''%d/%m/%Y'' (PStr ''string'')) (\<lambda>date_from.
     then_do (convert_date dateFrom ''%d/%m/%Y'' (PStr ''string'')) (\<lambda>date_to.
     then_do (lift (dict_get search_options ''--from'')) (\<lambda>fly_from.
     then_do (lift (dict_get search_options ''--to'')) (\<lambda>fly_to.
     then_do (lift (dict_get search_options ''--cheapest'')) (\<lambda>cheapest.
     let payload =
           [(''v'', PInt 3),
            (''dateFrom'', date_from),
            (''dateTo'', date_to),
            (''flyFrom'', fly_from),
            (''to'', fly_to),
            (''typeFlight'', PStr typeFlight),
            (''adults'', PInt 1),
            (''limit'', PInt 1),
            (''sort'', PStr (if cheapest = PBool True then ''price'' else ''duration''))]
     in
     if typeFlight = ''round''
     then then_do (lift (dict_get search_options ''--return'')) (\<lambda>n.
          let payload1 = dict_set payload ''daysInDestinationFrom'' n in
          then_do (lift (dict_get payload1 ''daysInDestinationFrom'')) (\<lambda>n'.
          returns (dict_set payload1 ''daysInDestinationTo'' n')))
     else returns payload))))))))"

text \<open>
  \<^verbatim>\<open>
  def book_flight(search_options, flight_details, passengers):
      flight_data = flight_details['data'][0]

      payload = {
          'currency': flight_details['currency'],
          'passengers': passengers,
          'bags': search_options['--bags'],
          'booking_token': flight_data['booking_token']
      }

      return json.loads(requests.post('http://128.199.48.38:8080/booking',
                        json=payload).text)
  \<close>
\<close>

definition book_flight :: "world \<Rightarrow> pydict \<Rightarrow> pyval \<Rightarrow> pyval \<Rightarrow> pyval run" where
  "book_flight w search_options flight_details passengers_arg =
     then_do (lift (getitem flight_details (PStr ''data''))) (\<lambda>data.
     then_do (lift (getitem data (PInt 0))) (\<lambda>flight_data.
     then_do (lift (getitem flight_details (PStr ''currency''))) (\<lambda>currency.
     then_do (lift (dict_get search_options ''--bags'')) (\<lambda>bags.
     then_do (lift (getitem flight_data (PStr ''booking_token''))) (\<lambda>token.
     let payload = PDict [(''currency'', currency),
                          (''passengers'', passengers_arg),
                          (''bags'', bags),
                          (''booking_token'', token)]
     in
     then_do (emit (HttpPost ''http://128.199.48.38:8080/booking'' payload)) (\<lambda>_.
     then_do (lift (requests_post w ''http://128.199.48.38:8080/booking'' payload)) (\<lambda>r.
     lift (json_loads w (resp_text r)))))))))"

text \<open>
  \<^verbatim>\<open>
  def search_and_book(search_options):
      payload = prepare_payload(search_options)
      flight_details = get_flights(payload)
      booking = book_flight(search_options, flight_details, passengers)

      if (booking['status'] == 'confirmed'):
          currency = flight_details['currency']
          price = flight_details['data'][0]['price']
          flyFrom = flight_details['data'][0]['cityFrom']
          flyTo = flight_details['data'][0]['cityTo']

          print(currency)
          print('Flight succesfully booked')
          print('Price:', price, currency)
          print('Departure:', flyFrom)
          print('Arrival:', flyTo)
          print('Your booking number is {}'.format(booking['pnr']))
      else:
          print('Could not book the flight')
  \<close>
\<close>

definition first_flight_field :: "pyval \<Rightarrow> string \<Rightarrow> pyval run" where
  "first_flight_field flight_details k =
     then_do (lift (getitem flight_details (PStr ''data''))) (\<lambda>data.
     then_do (lift (getitem data (PInt 0))) (\<lambda>flight.
     lift (getitem flight (PStr k))))"

definition search_and_book :: "world \<Rightarrow> pydict \<Rightarrow> unit run" where
  "search_and_book w search_options =
     then_do (prepare_payload search_options) (\<lambda>payload.
     then_do (get_flights w payload) (\<lambda>flight_details.
     then_do (book_flight w search_options flight_details passengers) (\<lambda>booking.
     then_do (lift (getitem booking (PStr ''status''))) (\<lambda>status.
     if status = PStr ''confirmed''
     then then_do (lift (getitem flight_details (PStr ''currency''))) (\<lambda>currency.
          then_do (first_flight_field flight_details ''price'') (\<lambda>price.
          then_do (first_flight_field flight_details ''cityFrom'') (\<lambda>flyFrom.
          then_do (first_flight_field flight_details ''cityTo'') (\<lambda>flyTo.
          then_do (emit (Print [currency])) (\<lambda>_.
          then_do (emit (Print [PStr ''Flight succesfully booked''])) (\<lambda>_.
          then_do (emit (Print [PStr ''Price:'', price, currency])) (\<lambda>_.
          then_do (emit (Print [PStr ''Departure:'', flyFrom])) (\<lambda>_.
          then_do (emit (Print [PStr ''Arrival:'', flyTo])) (\<lambda>_.
          then_do (lift (getitem booking (PStr ''pnr''))) (\<lambda>pnr.
          emit (Print [PStr (''Your booking number is '' @ py_str w pnr)])))))))))))
     else emit (Print [PStr ''Could not book the flight''])))))"

section \<open>Inputs the properties speak of\<close>

text \<open>
  A date string in the form \<^verbatim>\<open>yyyy-mm-dd\<close>: four digits, a hyphen, two digits, a hyphen,
  two digits, which name a day of the calendar.
\<close>

definition is_digit :: "char \<Rightarrow> bool" where
  "is_digit c = (digit_of c \<noteq> None)"

definition iso_date_string :: "string \<Rightarrow> bool" where
  "iso_date_string s =
     (length s = 10 \<and> s ! 4 = CHR ''-'' \<and> s ! 7 = CHR ''-'' \<and>
      list_all is_digit (take 4 s) \<and> list_all is_digit (take 2 (drop 5 s)) \<and>
      list_all is_digit (drop 8 s) \<and>
      valid_date (num_of (take 4 s)) (num_of (take 2 (drop 5 s))) (num_of (drop 8 s)))"

text \<open>
  Search options as docopt delivers them to \<^verbatim>\<open>prepare_payload\<close>: the date is such a
  string, and the other options it reads are present.
\<close>

definition has_key :: "pydict \<Rightarrow> string \<Rightarrow> bool" where
  "has_key d k = (map_of d k \<noteq> None)"

definition valid_search_options :: "pydict \<Rightarrow> bool" where
  "valid_search_options opts =
     ((case map_of opts ''--date'' of Some (PStr s) \<Rightarrow> iso_date_string s | _ \<Rightarrow> False) \<and>
      has_key opts ''--return'' \<and> has_key opts ''--from'' \<and> has_key opts ''--to'' \<and>
      has_key opts ''--cheapest'')"

text \<open>
  The options of the command line
  \<^verbatim>\<open>--date=2021-09-01 --from=PRG --to=LON --one-way --cheapest --bags=1\<close>, and of
  \<^verbatim>\<open>--date=2021-07-04 --from=PRG --to=LON --return=3 --fastest\<close>.
\<close>

definition example_options :: pydict where
  "example_options =
     [(''--date'', PStr ''2021-09-01''), (''--from'', PStr ''PRG''), (''--to'', PStr ''LON''),
      (''--one-way'', PBool True), (''--return'', PNone), (''--cheapest'', PBool True),
      (''--fastest'', PBool False), (''--bags'', PStr ''1'')]"

definition example_round_options :: pydict where
  "example_round_options =
     [(''--date'', PStr ''2021-07-04''), (''--from'', PStr ''PRG''), (''--to'', PStr ''LON''),
      (''--one-way'', PBool False), (''--return'', PStr ''3''), (''--cheapest'', PBool False),
      (''--fastest'', PBool True), (''--bags'', PStr ''0'')]"

definition example_flights :: pyval where
  "example_flights =
     PDict [(''currency'', PStr ''EUR''),
            (''data'', PList [PDict [(''price'', PInt 100), (''cityFrom'', PStr ''Prague''),
                                     (''cityTo'', PStr ''London''),
                                     (''booking_token'', PStr ''token'')]])]"

text \<open>The booking responses \<^verbatim>\<open>{"status":"confirmed","pnr":"ABC123"}\<close> and
  \<^verbatim>\<open>{"status":"pending"}\<close>, parsed.\<close>

definition confirmed_booking :: pyval where
  "confirmed_booking = PDict [(''status'', PStr ''confirmed''), (''pnr'', PStr ''ABC123'')]"

definition pending_booking :: pyval where
  "pending_booking = PDict [(''status'', PStr ''pending'')]"

text \<open>
  An environment in which the search service answers with the given status code and a body that
  parses to \<open>flights\<close>, and the booking service with a body that parses to \<open>booking\<close>.
\<close>

definition fixed_world :: "int \<Rightarrow> pyval \<Rightarrow> pyval \<Rightarrow> world" where
  "fixed_world code flights booking =
     \<lparr>requests_get = (\<lambda>url params. Inr \<lparr>status_code = code, resp_text = ''flights''\<rparr>),
      requests_post = (\<lambda>url body. Inr \<lparr>status_code = 200, resp_text = ''booking''\<rparr>),
      json_loads = (\<lambda>s. if s = ''flights'' then Inr flights
                         else if s = ''booking'' then Inr booking else Inl ValueError),
      repr_of = (\<lambda>v. ''<object>'')\<rparr>"

section \<open>Runs, digits and dates\<close>

lemma then_do_lift_Inr [simp]: "then_do (lift (Inr x)) f = f x"
  by (simp add: then_do_def lift_def split: prod.splits)

lemma then_do_lift_Inl [simp]: "then_do (lift (Inl e)) f = ([], Inl e)"
  by (simp add: then_do_def lift_def)

lemma then_do_returns [simp]: "then_do (returns x) f = f x"
  by (simp add: then_do_def returns_def split: prod.splits)

lemma then_do_emit [simp]: "then_do (emit e) f = (e # fst (f ()), snd (f ()))"
  by (simp add: then_do_def emit_def split: prod.splits)

lemma then_do_Inl [simp]: "then_do (es, Inl e) f = (es, Inl e)"
  by (simp add: then_do_def)

lemma then_do_Inr [simp]: "then_do (es, Inr x) f = (es @ fst (f x), snd (f x))"
  by (simp add: then_do_def split: prod.splits)

lemma digit_of_SomeD: "digit_of c = Some n \<Longrightarrow> n \<le> 9 \<and> digit_char n = c"
  by (auto simp: digit_of_def digit_char_def Let_def split: if_splits)

lemma digit_of_digit_char: "n \<le> 9 \<Longrightarrow> digit_of (digit_char n) = Some n"
  by (simp add: digit_of_def digit_char_def Let_def)

lemma digit_of_minus [simp]: "digit_of (CHR ''-'') = None"
  by (simp add: digit_of_def)

lemma length10E:
  assumes "length s = 10"
  obtains a b c d e f g h i j where "s = [a, b, c, d, e, f, g, h, i, j]"
  using assms by (auto simp: length_Suc_conv eval_nat_numeral)

lemma num_of2: "digit_of a = Some x \<Longrightarrow> digit_of b = Some y \<Longrightarrow> num_of [a, b] = 10 * x + y"
  by (simp add: num_of_def)

lemma pad2_num_of: "digit_of a = Some x \<Longrightarrow> digit_of b = Some y \<Longrightarrow> pad2 (num_of [a, b]) = [a, b]"
  using digit_of_SomeD [of a x] digit_of_SomeD [of b y]
  by (simp add: num_of2 pad2_def)

lemma dec_nat_digit: "n < 10 \<Longrightarrow> dec_nat n = [digit_char n]"
  by (subst dec_nat.simps) simp

lemma dec_nat_step:
  assumes "1 \<le> q" and "r < 10"
  shows "dec_nat (10 * q + r) = dec_nat q @ [digit_char r]"
  using assms by (subst dec_nat.simps) simp

lemma num_of4_nested:
  "digit_of a = Some x \<Longrightarrow> digit_of b = Some y \<Longrightarrow> digit_of c = Some z \<Longrightarrow> digit_of d = Some u
   \<Longrightarrow> num_of [a, b, c, d] = 10 * (10 * (10 * x + y) + z) + u"
  by (simp add: num_of_def)

lemma dec_nat_num_of4:
  assumes "digit_of a = Some x" "digit_of b = Some y" "digit_of c = Some z" "digit_of d = Some u"
    and "1000 \<le> num_of [a, b, c, d]"
  shows "dec_nat (num_of [a, b, c, d]) = [a, b, c, d]"
proof -
  note dg = digit_of_SomeD [OF assms(1)] digit_of_SomeD [OF assms(2)]
    digit_of_SomeD [OF assms(3)] digit_of_SomeD [OF assms(4)]
  from dg have bnd: "x \<le> 9" "y \<le> 9" "z \<le> 9" "u \<le> 9"
    and chars: "digit_char x = a" "digit_char y = b" "digit_char z = c" "digit_char u = d"
    by simp_all
  have n: "num_of [a, b, c, d] = 10 * (10 * (10 * x + y) + z) + u"
    using assms(1-4) by (rule num_of4_nested)
  have x: "1 \<le> x"
  proof (rule ccontr)
    assume "\<not> 1 \<le> x"
    then have "x = 0" by simp
    with assms(5) bnd show False unfolding n by simp
  qed
  have "dec_nat (10 * (10 * (10 * x + y) + z) + u)
          = dec_nat (10 * (10 * x + y) + z) @ [digit_char u]"
    by (rule dec_nat_step) (use x bnd in simp_all)
  also have "dec_nat (10 * (10 * x + y) + z) = dec_nat (10 * x + y) @ [digit_char z]"
    by (rule dec_nat_step) (use x bnd in simp_all)
  also have "dec_nat (10 * x + y) = dec_nat x @ [digit_char y]"
    by (rule dec_nat_step) (use x bnd in simp_all)
  also have "dec_nat x = [digit_char x]"
    by (rule dec_nat_digit) (use bnd in simp)
  finally show ?thesis unfolding n by (simp add: chars)
qed

lemma re_match_iso:
  assumes y: "digit_of y1 = Some a1" "digit_of y2 = Some a2" "digit_of y3 = Some a3"
             "digit_of y4 = Some a4"
    and m: "digit_of m1 = Some b1" "digit_of m2 = Some b2"
           "1 \<le> 10 * b1 + b2" "10 * b1 + b2 \<le> 12"
    and d: "digit_of d1 = Some c1" "digit_of d2 = Some c2"
           "1 \<le> 10 * c1 + c2" "10 * c1 + c2 \<le> 31"
  shows "re_match [Dir DY, Lit (CHR ''-''), Dir Dm, Lit (CHR ''-''), Dir Dd]
           [y1, y2, y3, y4, CHR ''-'', m1, m2, CHR ''-'', d1, d2]
         = Some ([(DY, [y1, y2, y3, y4]), (Dm, [m1, m2]), (Dd, [d1, d2])], [])"
proof -
  have bnd: "a1 \<le> 9" "a2 \<le> 9" "a3 \<le> 9" "a4 \<le> 9" "b2 \<le> 9" "c2 \<le> 9"
    using y m d by (auto dest: digit_of_SomeD)
  have day: "first_some
               (\<lambda>alt. case match_atoms alt [d1, d2] of None \<Rightarrow> None
                       | Some (t, r) \<Rightarrow> (case re_match [] r of None \<Rightarrow> None
                                          | Some (caps, r') \<Rightarrow> Some ((Dd, t) # caps, r')))
               (alts Dd) = Some ([(Dd, [d1, d2])], [])"
  proof -
    from d have "c1 = 0 \<or> c1 = 1 \<or> c1 = 2 \<or> c1 = 3" by arith
    then show ?thesis using d bnd by auto
  qed
  have month: "first_some
               (\<lambda>alt. case match_atoms alt [m1, m2, CHR ''-'', d1, d2] of None \<Rightarrow> None
                       | Some (t, r) \<Rightarrow> (case re_match [Lit (CHR ''-''), Dir Dd] r of None \<Rightarrow> None
                                          | Some (caps, r') \<Rightarrow> Some ((Dm, t) # caps, r')))
               (alts Dm) = Some ([(Dm, [m1, m2]), (Dd, [d1, d2])], [])"
  proof -
    from m have "b1 = 0 \<or> b1 = 1" by arith
    then show ?thesis using m bnd day by auto
  qed
  show ?thesis using y bnd month by simp
qed


lemma parse_format_ymd:
  "parse_format ''%Y-%m-%d'' = Some [Dir DY, Lit (CHR ''-''), Dir Dm, Lit (CHR ''-''), Dir Dd]"
  by (simp add: item_of_def)

lemma parse_format_dmy:
  "parse_format ''%d/%m/%Y'' = Some [Dir Dd, Lit (CHR ''/''), Dir Dm, Lit (CHR ''/''), Dir DY]"
  by (simp add: item_of_def)

lemma strftime_dmy:
  "strftime dt ''%d/%m/%Y''
     = Inr (pad2 (day dt) @ ''/'' @ pad2 (month dt) @ ''/'' @ dec_nat (year dt))"
  unfolding strftime_def parse_format_dmy by simp

lemma days_in_month_le: "days_in_month y m \<le> 31"
  by (simp add: days_in_month_def)

lemma strptime_ymd_match:
  assumes "re_match [Dir DY, Lit (CHR ''-''), Dir Dm, Lit (CHR ''-''), Dir Dd] s
             = Some ([(DY, ys), (Dm, ms), (Dd, ds)], [])"
    and "valid_date (num_of ys) (num_of ms) (num_of ds)"
  shows "strptime s ''%Y-%m-%d'' = Inr \<lparr>year = num_of ys, month = num_of ms, day = num_of ds\<rparr>"
  unfolding strptime_def parse_format_ymd
  by (simp add: assms plain_char_def captured_def del: re_match.simps)

lemma is_digitE:
  assumes "is_digit c"
  obtains n where "digit_of c = Some n"
  using assms by (auto simp: is_digit_def)

lemma strptime_iso:
  assumes "iso_date_string s"
  shows "strptime s ''%Y-%m-%d''
         = Inr \<lparr>year = num_of (take 4 s), month = num_of (take 2 (drop 5 s)),
                day = num_of (drop 8 s)\<rparr>"
proof -
  from assms have len: "length s = 10" by (simp add: iso_date_string_def)
  then obtain y1 y2 y3 y4 h1 m1 m2 h2 d1 d2
    where s: "s = [y1, y2, y3, y4, h1, m1, m2, h2, d1, d2]"
    by (rule length10E)
  from assms s have h: "h1 = CHR ''-''" "h2 = CHR ''-''"
    and dg: "is_digit y1" "is_digit y2" "is_digit y3" "is_digit y4"
            "is_digit m1" "is_digit m2" "is_digit d1" "is_digit d2"
    and v: "valid_date (num_of [y1, y2, y3, y4]) (num_of [m1, m2]) (num_of [d1, d2])"
    by (simp_all add: iso_date_string_def)
  from dg obtain a1 a2 a3 a4 b1 b2 c1 c2
    where y: "digit_of y1 = Some a1" "digit_of y2 = Some a2" "digit_of y3 = Some a3"
             "digit_of y4 = Some a4"
      and m: "digit_of m1 = Some b1" "digit_of m2 = Some b2"
      and d: "digit_of d1 = Some c1" "digit_of d2 = Some c2"
    by (elim is_digitE) blast
  have mv: "num_of [m1, m2] = 10 * b1 + b2" and dv: "num_of [d1, d2] = 10 * c1 + c2"
    using m d by (simp_all add: num_of2)
  from v have "1 \<le> num_of [m1, m2]" "num_of [m1, m2] \<le> 12" "1 \<le> num_of [d1, d2]"
    "num_of [d1, d2] \<le> days_in_month (num_of [y1, y2, y3, y4]) (num_of [m1, m2])"
    by (simp_all add: valid_date_def)
  with days_in_month_le [of "num_of [y1, y2, y3, y4]" "num_of [m1, m2]"]
  have bounds: "1 \<le> 10 * b1 + b2" "10 * b1 + b2 \<le> 12" "1 \<le> 10 * c1 + c2" "10 * c1 + c2 \<le> 31"
    unfolding mv dv by linarith+
  have "re_match [Dir DY, Lit (CHR ''-''), Dir Dm, Lit (CHR ''-''), Dir Dd] s
          = Some ([(DY, [y1, y2, y3, y4]), (Dm, [m1, m2]), (Dd, [d1, d2])], [])"
    unfolding s h using y m bounds(1,2) d bounds(3,4) by (rule re_match_iso)
  from strptime_ymd_match [OF this v] show ?thesis by (simp add: s)
qed

lemma strftime_iso_year:
  assumes "iso_date_string s"
  shows "strftime \<lparr>year = num_of (take 4 s), month = num_of (take 2 (drop 5 s)),
                    day = num_of (drop 8 s)\<rparr> ''%d/%m/%Y''
         = Inr (drop 8 s @ ''/'' @ take 2 (drop 5 s) @ ''/'' @ dec_nat (num_of (take 4 s)))"
proof -
  from assms have len: "length s = 10" by (simp add: iso_date_string_def)
  then obtain y1 y2 y3 y4 h1 m1 m2 h2 d1 d2
    where s: "s = [y1, y2, y3, y4, h1, m1, m2, h2, d1, d2]"
    by (rule length10E)
  from assms s have dg: "is_digit m1" "is_digit m2" "is_digit d1" "is_digit d2"
    by (simp_all add: iso_date_string_def)
  then obtain b1 b2 c1 c2
    where m: "digit_of m1 = Some b1" "digit_of m2 = Some b2"
      and d: "digit_of d1 = Some c1" "digit_of d2 = Some c2"
    by (elim is_digitE) blast
  have "pad2 (num_of [m1, m2]) = [m1, m2]" using m by (rule pad2_num_of)
  moreover have "pad2 (num_of [d1, d2]) = [d1, d2]" using d by (rule pad2_num_of)
  ultimately show ?thesis by (simp add: strftime_dmy s)
qed

lemma dec_nat_iso_year:
  assumes "iso_date_string s" and "1000 \<le> num_of (take 4 s)"
  shows "dec_nat (num_of (take 4 s)) = take 4 s"
proof -
  from assms(1) have len: "length s = 10" by (simp add: iso_date_string_def)
  then obtain y1 y2 y3 y4 h1 m1 m2 h2 d1 d2
    where s: "s = [y1, y2, y3, y4, h1, m1, m2, h2, d1, d2]"
    by (rule length10E)
  from assms(1) s have "is_digit y1" "is_digit y2" "is_digit y3" "is_digit y4"
    by (simp_all add: iso_date_string_def)
  then obtain a1 a2 a3 a4
    where y: "digit_of y1 = Some a1" "digit_of y2 = Some a2" "digit_of y3 = Some a3"
             "digit_of y4 = Some a4"
    by (elim is_digitE) blast
  from assms(2) have "1000 \<le> num_of [y1, y2, y3, y4]" by (simp add: s)
  with y have "dec_nat (num_of [y1, y2, y3, y4]) = [y1, y2, y3, y4]" by (rule dec_nat_num_of4)
  then show ?thesis by (simp add: s)
qed

lemma strftime_iso:
  assumes "iso_date_string s" and "1000 \<le> num_of (take 4 s)"
  shows "strftime \<lparr>year = num_of (take 4 s), month = num_of (take 2 (drop 5 s)),
                    day = num_of (drop 8 s)\<rparr> ''%d/%m/%Y''
         = Inr (drop 8 s @ ''/'' @ take 2 (drop 5 s) @ ''/'' @ take 4 s)"
  using strftime_iso_year [OF assms(1)] dec_nat_iso_year [OF assms] by simp

lemma then_do_InrE:
  assumes "then_do m f = (es, Inr y)"
  obtains es1 x es2 where "m = (es1, Inr x)" "f x = (es2, Inr y)" "es = es1 @ es2"
  using assms by (auto simp: then_do_def split: prod.splits sum.splits)

lemma fst_then_do_Nil:
  assumes "fst m = []" and "\<And>x. fst (f x) = []"
  shows "fst (then_do m f) = []"
  using assms by (cases m) (auto simp: then_do_def split: prod.splits sum.splits)

lemma fst_lift [simp]: "fst (lift r) = []"
  by (simp add: lift_def)

lemma fst_returns [simp]: "fst (returns x) = []"
  by (simp add: returns_def)

lemma fst_convert_date_object: "fst (convert_date d fmt (PStr ''object'')) = []"
  by (simp add: convert_date_def split: pyval.splits sum.splits)

lemma fst_convert_date_string: "fst (convert_date d fmt (PStr ''string'')) = []"
  by (simp add: convert_date_def split: pyval.splits sum.splits)

lemma convert_date_object_Inr:
  "strptime s fmt = Inr dt \<Longrightarrow> convert_date (PStr s) fmt (PStr ''object'') = ([], Inr (PDatetime dt))"
  by (simp add: convert_date_def returns_def)

lemma convert_date_string_Inr:
  "strftime dt fmt = Inr t \<Longrightarrow> convert_date (PDatetime dt) fmt (PStr ''string'') = ([], Inr (PStr t))"
  by (simp add: convert_date_def returns_def)

lemma convert_date_object_InrD:
  assumes "convert_date d fmt (PStr ''object'') = (es, Inr x)"
  shows "\<exists>s dt. d = PStr s \<and> strptime s fmt = Inr dt \<and> x = PDatetime dt \<and> es = []"
  using assms by (auto simp: convert_date_def returns_def lift_def split: pyval.splits sum.splits)

lemma convert_date_string_InrD:
  assumes "convert_date d fmt (PStr ''string'') = (es, Inr x)"
  shows "\<exists>dt t. d = PDatetime dt \<and> strftime dt fmt = Inr t \<and> x = PStr t \<and> es = []"
  using assms by (auto simp: convert_date_def returns_def lift_def split: pyval.splits sum.splits)

lemma dict_get_Nil [simp]: "dict_get [] k = Inl KeyError"
  by (simp add: dict_get_def)

lemma dict_get_Cons [simp]:
  "dict_get ((k', v) # d) k = (if k' = k then Inr v else dict_get d k)"
  by (simp add: dict_get_def)

lemma prepare_payload_events: "fst (prepare_payload opts) = []"
  unfolding prepare_payload_def Let_def
  by (intro fst_then_do_Nil fst_lift fst_convert_date_object fst_convert_date_string)
     (auto intro!: fst_then_do_Nil)

lemma prepare_payload_Inr:
  assumes "dict_get opts ''--date'' = Inr (PStr s)"
    and "strptime s ''%Y-%m-%d'' = Inr dt"
    and "strftime dt ''%d/%m/%Y'' = Inr t"
    and "dict_get opts ''--return'' = Inr n"
    and "dict_get opts ''--from'' = Inr a"
    and "dict_get opts ''--to'' = Inr b"
    and "dict_get opts ''--cheapest'' = Inr c"
  shows "prepare_payload opts =
           ([], Inr ([(''v'', PInt 3), (''dateFrom'', PStr t), (''dateTo'', PStr t),
                      (''flyFrom'', a), (''to'', b),
                      (''typeFlight'', PStr (if n \<noteq> PNone then ''round'' else ''oneway'')),
                      (''adults'', PInt 1), (''limit'', PInt 1),
                      (''sort'', PStr (if c = PBool True then ''price'' else ''duration''))]
                     @ (if n \<noteq> PNone
                        then [(''daysInDestinationFrom'', n), (''daysInDestinationTo'', n)]
                        else [])))"
  unfolding prepare_payload_def Let_def
  by (simp add: assms convert_date_object_Inr convert_date_string_Inr returns_def)

lemma prepare_payload_InrD:
  assumes "prepare_payload opts = (es, Inr p)"
  shows "\<exists>s dt t n a b c.
           dict_get opts ''--date'' = Inr (PStr s) \<and> strptime s ''%Y-%m-%d'' = Inr dt \<and>
           strftime dt ''%d/%m/%Y'' = Inr t \<and> dict_get opts ''--return'' = Inr n \<and>
           dict_get opts ''--from'' = Inr a \<and> dict_get opts ''--to'' = Inr b \<and>
           dict_get opts ''--cheapest'' = Inr c"
  using assms unfolding prepare_payload_def Let_def
  apply (elim then_do_InrE)
  apply (auto simp: lift_def dest!: convert_date_object_InrD convert_date_string_InrD)
  done

lemma has_key_dict_get:
  assumes "has_key d k"
  obtains v where "dict_get d k = Inr v" "map_of d k = Some v"
  using assms by (auto simp: has_key_def dict_get_def)

lemma valid_search_optionsE:
  assumes "valid_search_options opts"
  obtains s n a b c where
    "dict_get opts ''--date'' = Inr (PStr s)" "iso_date_string s"
    "dict_get opts ''--return'' = Inr n" "dict_get opts ''--from'' = Inr a"
    "dict_get opts ''--to'' = Inr b" "dict_get opts ''--cheapest'' = Inr c"
proof -
  from assms obtain s where s: "map_of opts ''--date'' = Some (PStr s)" "iso_date_string s"
    by (auto simp: valid_search_options_def split: option.splits pyval.splits)
  from assms have "has_key opts ''--return''" "has_key opts ''--from''" "has_key opts ''--to''"
    "has_key opts ''--cheapest''"
    by (simp_all add: valid_search_options_def)
  then obtain n a b c where "dict_get opts ''--return'' = Inr n" "dict_get opts ''--from'' = Inr a"
    "dict_get opts ''--to'' = Inr b" "dict_get opts ''--cheapest'' = Inr c"
    by (elim has_key_dict_get) blast
  moreover from s have "dict_get opts ''--date'' = Inr (PStr s)" by (simp add: dict_get_def)
  ultimately show thesis using s(2) that by blast
qed

lemma dict_get_Inr_iff: "dict_get d k = Inr v \<longleftrightarrow> map_of d k = Some v"
  by (simp add: dict_get_def split: option.splits)

lemma valid_example_options: "valid_search_options example_options"
  by (simp add: valid_search_options_def example_options_def has_key_def iso_date_string_def
      is_digit_def digit_of_def valid_date_def days_in_month_def is_leap_def num_of_def)

lemma valid_example_round_options: "valid_search_options example_round_options"
  by (simp add: valid_search_options_def example_round_options_def has_key_def
      iso_date_string_def is_digit_def digit_of_def valid_date_def days_in_month_def is_leap_def
      num_of_def)

lemma prepare_payload_InrD2:
  assumes "prepare_payload opts = (es, Inr p)"
  obtains t n a b c where
    "dict_get opts ''--return'' = Inr n" "dict_get opts ''--cheapest'' = Inr c"
    "es = []"
    "p = [(''v'', PInt 3), (''dateFrom'', PStr t), (''dateTo'', PStr t),
          (''flyFrom'', a), (''to'', b),
          (''typeFlight'', PStr (if n \<noteq> PNone then ''round'' else ''oneway'')),
          (''adults'', PInt 1), (''limit'', PInt 1),
          (''sort'', PStr (if c = PBool True then ''price'' else ''duration''))]
         @ (if n \<noteq> PNone
            then [(''daysInDestinationFrom'', n), (''daysInDestinationTo'', n)]
            else [])"
proof -
  from prepare_payload_InrD [OF assms] obtain s dt t n a b c where o:
    "dict_get opts ''--date'' = Inr (PStr s)" "strptime s ''%Y-%m-%d'' = Inr dt"
    "strftime dt ''%d/%m/%Y'' = Inr t" "dict_get opts ''--return'' = Inr n"
    "dict_get opts ''--from'' = Inr a" "dict_get opts ''--to'' = Inr b"
    "dict_get opts ''--cheapest'' = Inr c"
    by blast
  from prepare_payload_Inr [OF o] assms show thesis
    using o(4,7) that by simp
qed

lemma prepare_payload_total:
  assumes "valid_search_options opts"
  shows "\<exists>p. prepare_payload opts = ([], Inr p)"
proof -
  from assms obtain s n a b c where o:
    "dict_get opts ''--date'' = Inr (PStr s)" "iso_date_string s"
    "dict_get opts ''--return'' = Inr n" "dict_get opts ''--from'' = Inr a"
    "dict_get opts ''--to'' = Inr b" "dict_get opts ''--cheapest'' = Inr c"
    by (rule valid_search_optionsE)
  from prepare_payload_Inr [OF o(1) strptime_iso [OF o(2)] strftime_iso_year [OF o(2)] o(3-6)]
  show ?thesis by blast
qed

lemma iso_example_date: "iso_date_string ''2021-09-01''"
  by (simp add: iso_date_string_def is_digit_def digit_of_def valid_date_def days_in_month_def
      is_leap_def num_of_def)

lemma iso_example_round_date: "iso_date_string ''2021-07-04''"
  by (simp add: iso_date_string_def is_digit_def digit_of_def valid_date_def days_in_month_def
      is_leap_def num_of_def)

lemma example_date_year: "1000 \<le> num_of (take 4 ''2021-09-01'')"
  by (simp add: num_of_def digit_of_def)

lemma example_round_date_year: "1000 \<le> num_of (take 4 ''2021-07-04'')"
  by (simp add: num_of_def digit_of_def)

lemma iso_early_date: "iso_date_string ''0999-12-31''"
  by (simp add: iso_date_string_def is_digit_def digit_of_def valid_date_def days_in_month_def
      is_leap_def num_of_def)

lemma early_date_text: "pad2 31 @ ''/'' @ pad2 12 @ ''/'' @ dec_nat 999 = ''31/12/999''"
  by code_simp

text \<open>\<open>dec_nat\<close> writes a number in decimal: reading the digits back gives the number.\<close>

lemma digit_of_lt10: "n < 10 \<Longrightarrow> digit_of (digit_char n) = Some n"
  by (simp add: digit_of_digit_char)

lemma num_of_snoc:
  "num_of (s @ [c]) = (case digit_of c of None \<Rightarrow> num_of s | Some d \<Rightarrow> 10 * num_of s + d)"
  by (simp add: num_of_def split: option.splits)

lemma num_of_dec_nat: "num_of (dec_nat n) = n"
proof (induction n rule: dec_nat.induct)
  case (1 n)
  show ?case
  proof (cases "n < 10")
    case True
    then show ?thesis
      by (subst dec_nat.simps) (simp add: num_of_def digit_of_lt10)
  next
    case False
    with 1 have "num_of (dec_nat (n div 10)) = n div 10" by simp
    with False show ?thesis
      by (subst dec_nat.simps) (simp add: num_of_snoc digit_of_lt10)
  qed
qed

lemma str_int_500: "str_int 500 = ''500''"
  by code_simp

lemma then_do_lift:
  "then_do (lift r) f = (case r of Inl e \<Rightarrow> ([], Inl e) | Inr x \<Rightarrow> f x)"
  by (cases r) simp_all

lemma example_flights_items:
  "getitem example_flights (PStr ''data'')
     = Inr (PList [PDict [(''price'', PInt 100), (''cityFrom'', PStr ''Prague''),
                          (''cityTo'', PStr ''London''), (''booking_token'', PStr ''token'')]])"
  "getitem example_flights (PStr ''currency'') = Inr (PStr ''EUR'')"
  by (simp_all add: example_flights_def)

lemma example_bags: "dict_get example_options ''--bags'' = Inr (PStr ''1'')"
  by (simp add: example_options_def)

lemma example_payload:
  "prepare_payload example_options =
     ([], Inr [(''v'', PInt 3), (''dateFrom'', PStr ''01/09/2021''),
               (''dateTo'', PStr ''01/09/2021''), (''flyFrom'', PStr ''PRG''),
               (''to'', PStr ''LON''), (''typeFlight'', PStr ''oneway''),
               (''adults'', PInt 1), (''limit'', PInt 1), (''sort'', PStr ''price'')])"
proof -
  have o: "dict_get example_options ''--date'' = Inr (PStr ''2021-09-01'')"
    "dict_get example_options ''--return'' = Inr PNone"
    "dict_get example_options ''--from'' = Inr (PStr ''PRG'')"
    "dict_get example_options ''--to'' = Inr (PStr ''LON'')"
    "dict_get example_options ''--cheapest'' = Inr (PBool True)"
    by (simp_all add: example_options_def)
  from prepare_payload_Inr [OF o(1) strptime_iso [OF iso_example_date]
      strftime_iso [OF iso_example_date example_date_year] o(2-5)]
  show ?thesis by simp
qed

lemma str_int_100: "str_int 100 = ''100''"
  by code_simp

section \<open>The payload builder\<close>

text \<open>
  C2. For every valid one-way record of search options (the value of \<^verbatim>\<open>--return\<close> is
  \<^verbatim>\<open>None\<close>), \<^verbatim>\<open>prepare_payload\<close> returns a payload, without printing, whose
  \<^verbatim>\<open>typeFlight\<close> is \<^verbatim>\<open>oneway\<close> and which has neither the key
  \<^verbatim>\<open>daysInDestinationFrom\<close> nor the key \<^verbatim>\<open>daysInDestinationTo\<close>.
\<close>

theorem prepare_payload_oneway:
  assumes "valid_search_options opts" and "map_of opts ''--return'' = Some PNone"
  shows "\<exists>p. prepare_payload opts = ([], Inr p) \<and>
             map_of p ''typeFlight'' = Some (PStr ''oneway'') \<and>
             ''daysInDestinationFrom'' \<notin> fst ` set p \<and>
             ''daysInDestinationTo'' \<notin> fst ` set p"
proof -
  from assms(1) obtain s n a b c where o:
    "dict_get opts ''--date'' = Inr (PStr s)" "iso_date_string s"
    "dict_get opts ''--return'' = Inr n" "dict_get opts ''--from'' = Inr a"
    "dict_get opts ''--to'' = Inr b" "dict_get opts ''--cheapest'' = Inr c"
    by (rule valid_search_optionsE)
  from o(3) assms(2) have n: "n = PNone" by (simp add: dict_get_def)
  note run = prepare_payload_Inr [OF o(1) strptime_iso [OF o(2)] strftime_iso_year [OF o(2)] o(3-6)]
  show ?thesis unfolding run n by simp
qed

theorem prepare_payload_oneway_witness:
  "\<exists>p. prepare_payload example_options = ([], Inr p) \<and>
       map_of p ''typeFlight'' = Some (PStr ''oneway'') \<and>
       ''daysInDestinationFrom'' \<notin> fst ` set p \<and>
       ''daysInDestinationTo'' \<notin> fst ` set p"
proof -
  have "map_of example_options ''--return'' = Some PNone"
    by (simp add: example_options_def)
  from prepare_payload_oneway [OF valid_example_options this] show ?thesis .
qed

text \<open>
  C3. For every valid round-trip record of search options, whose \<^verbatim>\<open>--return\<close> value
  \<open>n\<close> is not \<^verbatim>\<open>None\<close>, \<^verbatim>\<open>prepare_payload\<close> returns a payload whose
  \<^verbatim>\<open>typeFlight\<close> is \<^verbatim>\<open>round\<close> and whose \<^verbatim>\<open>daysInDestinationFrom\<close> and
  \<^verbatim>\<open>daysInDestinationTo\<close> are both \<open>n\<close>.
\<close>

theorem prepare_payload_round:
  assumes "valid_search_options opts" and "map_of opts ''--return'' = Some n" and "n \<noteq> PNone"
  shows "\<exists>p. prepare_payload opts = ([], Inr p) \<and>
             map_of p ''typeFlight'' = Some (PStr ''round'') \<and>
             map_of p ''daysInDestinationFrom'' = Some n \<and>
             map_of p ''daysInDestinationTo'' = Some n"
proof -
  from assms(1) obtain s n' a b c where o:
    "dict_get opts ''--date'' = Inr (PStr s)" "iso_date_string s"
    "dict_get opts ''--return'' = Inr n'" "dict_get opts ''--from'' = Inr a"
    "dict_get opts ''--to'' = Inr b" "dict_get opts ''--cheapest'' = Inr c"
    by (rule valid_search_optionsE)
  from o(3) assms(2) have n: "n' = n" by (simp add: dict_get_def)
  note run = prepare_payload_Inr [OF o(1) strptime_iso [OF o(2)] strftime_iso_year [OF o(2)] o(3-6)]
  show ?thesis unfolding run n using assms(3) by simp
qed

theorem prepare_payload_round_witness:
  "\<exists>p. prepare_payload example_round_options = ([], Inr p) \<and>
       map_of p ''typeFlight'' = Some (PStr ''round'') \<and>
       map_of p ''daysInDestinationFrom'' = Some (PStr ''3'') \<and>
       map_of p ''daysInDestinationTo'' = Some (PStr ''3'')"
proof -
  have "map_of example_round_options ''--return'' = Some (PStr ''3'')"
    by (simp add: example_round_options_def)
  from prepare_payload_round [OF valid_example_round_options this] show ?thesis by simp
qed

text \<open>
  C4, amended. For every valid date string in the form \<^verbatim>\<open>yyyy-mm-dd\<close> whose year is at
  least 1000, parsing it with \<^verbatim>\<open>convert_date(s, '%Y-%m-%d', 'object')\<close> and formatting the
  result with \<^verbatim>\<open>convert_date(d, '%d/%m/%Y', 'string')\<close> gives the two digits of the day, a
  slash, the two digits of the month, a slash and the four digits of the year: the same date as
  \<^verbatim>\<open>dd/mm/yyyy\<close>. \<^verbatim>\<open>prepare_payload\<close> puts this string under both
  \<^verbatim>\<open>dateFrom\<close> and \<^verbatim>\<open>dateTo\<close>. Below the year 1000 the year comes out without
  its leading zeros: \<^verbatim>\<open>0999-12-31\<close> gives \<^verbatim>\<open>31/12/999\<close>, the third theorem
  below.
\<close>

theorem date_round_trip:
  assumes "iso_date_string s" and "1000 \<le> num_of (take 4 s)"
  shows "then_do (convert_date (PStr s) ''%Y-%m-%d'' (PStr ''object''))
           (\<lambda>d. convert_date d ''%d/%m/%Y'' (PStr ''string''))
         = ([], Inr (PStr (drop 8 s @ ''/'' @ take 2 (drop 5 s) @ ''/'' @ take 4 s))) \<and>
         (\<forall>opts. map_of opts ''--date'' = Some (PStr s) \<and> has_key opts ''--return'' \<and>
                 has_key opts ''--from'' \<and> has_key opts ''--to'' \<and> has_key opts ''--cheapest''
            \<longrightarrow> (\<exists>p. prepare_payload opts = ([], Inr p) \<and>
                   map_of p ''dateFrom'' =
                     Some (PStr (drop 8 s @ ''/'' @ take 2 (drop 5 s) @ ''/'' @ take 4 s)) \<and>
                   map_of p ''dateTo'' =
                     Some (PStr (drop 8 s @ ''/'' @ take 2 (drop 5 s) @ ''/'' @ take 4 s))))"
proof (intro conjI allI impI)
  note parse = convert_date_object_Inr [OF strptime_iso [OF assms(1)]]
  note render = convert_date_string_Inr [OF strftime_iso [OF assms]]
  show "then_do (convert_date (PStr s) ''%Y-%m-%d'' (PStr ''object''))
           (\<lambda>d. convert_date d ''%d/%m/%Y'' (PStr ''string''))
         = ([], Inr (PStr (drop 8 s @ ''/'' @ take 2 (drop 5 s) @ ''/'' @ take 4 s)))"
    unfolding parse by (simp add: render)
next
  fix opts
  assume a: "map_of opts ''--date'' = Some (PStr s) \<and> has_key opts ''--return'' \<and>
             has_key opts ''--from'' \<and> has_key opts ''--to'' \<and> has_key opts ''--cheapest''"
  then have d: "dict_get opts ''--date'' = Inr (PStr s)" by (simp add: dict_get_def)
  from a obtain n x y c where o: "dict_get opts ''--return'' = Inr n"
    "dict_get opts ''--from'' = Inr x" "dict_get opts ''--to'' = Inr y"
    "dict_get opts ''--cheapest'' = Inr c"
    by (elim conjE has_key_dict_get) blast
  note run = prepare_payload_Inr [OF d strptime_iso [OF assms(1)] strftime_iso [OF assms] o]
  show "\<exists>p. prepare_payload opts = ([], Inr p) \<and>
           map_of p ''dateFrom'' =
             Some (PStr (drop 8 s @ ''/'' @ take 2 (drop 5 s) @ ''/'' @ take 4 s)) \<and>
           map_of p ''dateTo'' =
             Some (PStr (drop 8 s @ ''/'' @ take 2 (drop 5 s) @ ''/'' @ take 4 s))"
    unfolding run by simp
qed

theorem date_round_trip_witness:
  "then_do (convert_date (PStr ''2021-07-04'') ''%Y-%m-%d'' (PStr ''object''))
     (\<lambda>d. convert_date d ''%d/%m/%Y'' (PStr ''string''))
   = ([], Inr (PStr ''04/07/2021'')) \<and>
   (\<exists>p. prepare_payload example_round_options = ([], Inr p) \<and>
        map_of p ''dateFrom'' = Some (PStr ''04/07/2021'') \<and>
        map_of p ''dateTo'' = Some (PStr ''04/07/2021''))"
proof -
  have k: "map_of example_round_options ''--date'' = Some (PStr ''2021-07-04'') \<and>
        has_key example_round_options ''--return'' \<and> has_key example_round_options ''--from'' \<and>
        has_key example_round_options ''--to'' \<and> has_key example_round_options ''--cheapest''"
    by (simp add: example_round_options_def has_key_def)
  from date_round_trip [OF iso_example_round_date example_round_date_year] k
  show ?thesis by simp
qed

theorem date_round_trip_counterexample:
  "iso_date_string ''0999-12-31'' \<and>
   then_do (convert_date (PStr ''0999-12-31'') ''%Y-%m-%d'' (PStr ''object''))
     (\<lambda>d. convert_date d ''%d/%m/%Y'' (PStr ''string''))
   = ([], Inr (PStr ''31/12/999'')) \<and>
   ''31/12/999'' \<noteq> ''31/12/0999''"
proof -
  have parsed: "strptime ''0999-12-31'' ''%Y-%m-%d'' = Inr \<lparr>year = 999, month = 12, day = 31\<rparr>"
    using strptime_iso [OF iso_early_date] by (simp add: num_of_def digit_of_def)
  have "strftime \<lparr>year = 999, month = 12, day = 31\<rparr> ''%d/%m/%Y''
          = Inr (pad2 31 @ ''/'' @ pad2 12 @ ''/'' @ dec_nat 999)"
    using strftime_dmy [of "\<lparr>year = 999, month = 12, day = 31\<rparr>"] by simp
  then have rendered: "strftime \<lparr>year = 999, month = 12, day = 31\<rparr> ''%d/%m/%Y''
                         = Inr ''31/12/999''"
    by (simp only: early_date_text)
  show ?thesis
    by (simp add: convert_date_object_Inr [OF parsed] convert_date_string_Inr [OF rendered]
        iso_early_date)
qed

text \<open>
  C5. Whenever \<^verbatim>\<open>prepare_payload\<close> returns a payload, its \<^verbatim>\<open>sort\<close> is
  \<^verbatim>\<open>price\<close> if the value of \<^verbatim>\<open>--cheapest\<close> is \<^verbatim>\<open>True\<close> and
  \<^verbatim>\<open>duration\<close> otherwise; and it returns one for every valid record of search options.
\<close>

theorem prepare_payload_sort:
  "(\<forall>es p. prepare_payload opts = (es, Inr p) \<longrightarrow>
      map_of p ''sort'' =
        Some (PStr (if map_of opts ''--cheapest'' = Some (PBool True)
                    then ''price'' else ''duration''))) \<and>
   (valid_search_options opts \<longrightarrow> (\<exists>p. prepare_payload opts = ([], Inr p)))"
proof (intro conjI allI impI)
  fix es p
  assume "prepare_payload opts = (es, Inr p)"
  then obtain t n a b c where o: "dict_get opts ''--cheapest'' = Inr c"
    and p: "p = [(''v'', PInt 3), (''dateFrom'', PStr t), (''dateTo'', PStr t),
          (''flyFrom'', a), (''to'', b),
          (''typeFlight'', PStr (if n \<noteq> PNone then ''round'' else ''oneway'')),
          (''adults'', PInt 1), (''limit'', PInt 1),
          (''sort'', PStr (if c = PBool True then ''price'' else ''duration''))]
         @ (if n \<noteq> PNone
            then [(''daysInDestinationFrom'', n), (''daysInDestinationTo'', n)]
            else [])"
    by (rule prepare_payload_InrD2)
  from o have "map_of opts ''--cheapest'' = Some c" by (simp add: dict_get_Inr_iff)
  then show "map_of p ''sort'' =
        Some (PStr (if map_of opts ''--cheapest'' = Some (PBool True)
                    then ''price'' else ''duration''))"
    unfolding p by simp
next
  assume "valid_search_options opts"
  then show "\<exists>p. prepare_payload opts = ([], Inr p)" by (rule prepare_payload_total)
qed

theorem prepare_payload_sort_witness:
  "(\<exists>p. prepare_payload example_options = ([], Inr p) \<and>
        map_of p ''sort'' = Some (PStr ''price'')) \<and>
   (\<exists>p. prepare_payload example_round_options = ([], Inr p) \<and>
        map_of p ''sort'' = Some (PStr ''duration''))"
proof -
  have "map_of example_options ''--cheapest'' = Some (PBool True)"
    and "map_of example_round_options ''--cheapest'' = Some (PBool False)"
    by (simp_all add: example_options_def example_round_options_def)
  with prepare_payload_sort [of example_options] prepare_payload_sort [of example_round_options]
    valid_example_options valid_example_round_options
  show ?thesis by fastforce
qed

text \<open>
  C6. The options date 2021-09-01, from PRG, to LON, one way, cheapest, one bag give exactly the
  payload \<^verbatim>\<open>v=3\<close>, \<^verbatim>\<open>dateFrom=01/09/2021\<close>, \<^verbatim>\<open>dateTo=01/09/2021\<close>,
  \<^verbatim>\<open>flyFrom=PRG\<close>, \<^verbatim>\<open>to=LON\<close>, \<^verbatim>\<open>typeFlight=oneway\<close>, \<^verbatim>\<open>adults=1\<close>,
  \<^verbatim>\<open>limit=1\<close>, \<^verbatim>\<open>sort=price\<close>; and every payload that \<^verbatim>\<open>prepare_payload\<close>
  returns has \<^verbatim>\<open>v=3\<close>, \<^verbatim>\<open>adults=1\<close> and \<^verbatim>\<open>limit=1\<close>.
\<close>

theorem prepare_payload_example:
  "prepare_payload example_options =
     ([], Inr [(''v'', PInt 3), (''dateFrom'', PStr ''01/09/2021''),
               (''dateTo'', PStr ''01/09/2021''), (''flyFrom'', PStr ''PRG''),
               (''to'', PStr ''LON''), (''typeFlight'', PStr ''oneway''),
               (''adults'', PInt 1), (''limit'', PInt 1), (''sort'', PStr ''price'')]) \<and>
   (\<forall>opts es p. prepare_payload opts = (es, Inr p) \<longrightarrow>
      map_of p ''v'' = Some (PInt 3) \<and> map_of p ''adults'' = Some (PInt 1) \<and>
      map_of p ''limit'' = Some (PInt 1))"
proof (intro conjI allI impI)
  show "prepare_payload example_options =
     ([], Inr [(''v'', PInt 3), (''dateFrom'', PStr ''01/09/2021''),
               (''dateTo'', PStr ''01/09/2021''), (''flyFrom'', PStr ''PRG''),
               (''to'', PStr ''LON''), (''typeFlight'', PStr ''oneway''),
               (''adults'', PInt 1), (''limit'', PInt 1), (''sort'', PStr ''price'')])"
    by (rule example_payload)
next
  fix opts es p
  assume "prepare_payload opts = (es, Inr p)"
  then obtain t n a b c where
    p: "p = [(''v'', PInt 3), (''dateFrom'', PStr t), (''dateTo'', PStr t),
          (''flyFrom'', a), (''to'', b),
          (''typeFlight'', PStr (if n \<noteq> PNone then ''round'' else ''oneway'')),
          (''adults'', PInt 1), (''limit'', PInt 1),
          (''sort'', PStr (if c = PBool True then ''price'' else ''duration''))]
         @ (if n \<noteq> PNone
            then [(''daysInDestinationFrom'', n), (''daysInDestinationTo'', n)]
            else [])"
    by (rule prepare_payload_InrD2)
  show "map_of p ''v'' = Some (PInt 3)" unfolding p by simp
  show "map_of p ''adults'' = Some (PInt 1)" unfolding p by simp
  show "map_of p ''limit'' = Some (PInt 1)" unfolding p by simp
qed

theorem prepare_payload_example_witness:
  "\<exists>p. prepare_payload example_round_options = ([], Inr p) \<and>
       map_of p ''v'' = Some (PInt 3) \<and> map_of p ''adults'' = Some (PInt 1) \<and>
       map_of p ''limit'' = Some (PInt 1)"
proof -
  from prepare_payload_total [OF valid_example_round_options]
  obtain p where p: "prepare_payload example_round_options = ([], Inr p)" ..
  with prepare_payload_example show ?thesis by blast
qed

text \<open>
  C10. Called with a third argument other than \<^verbatim>\<open>'object'\<close> and \<^verbatim>\<open>'string'\<close>,
  \<^verbatim>\<open>convert_date\<close> prints \<^verbatim>\<open>Unsupported convertsion\<close> and returns \<^verbatim>\<open>None\<close>
  without raising. No run of \<^verbatim>\<open>prepare_payload\<close> prints that line: it never takes this
  branch.
\<close>

theorem convert_date_unsupported:
  "(t \<noteq> PStr ''object'' \<and> t \<noteq> PStr ''string'' \<longrightarrow>
      convert_date d fmt t = ([Print [PStr ''Unsupported convertsion'']], Inr PNone)) \<and>
   Print [PStr ''Unsupported convertsion''] \<notin> set (fst (prepare_payload opts))"
  by (simp add: convert_date_def returns_def prepare_payload_events)

theorem convert_date_unsupported_witness:
  "convert_date (PStr ''2021-09-01'') ''%Y-%m-%d'' (PStr ''date'')
     = ([Print [PStr ''Unsupported convertsion'']], Inr PNone) \<and>
   Print [PStr ''Unsupported convertsion''] \<notin> set (fst (prepare_payload example_options))"
  using convert_date_unsupported [of "PStr ''date''" "PStr ''2021-09-01''" "''%Y-%m-%d''"
      example_options]
  by simp

section \<open>The flight search client\<close>

text \<open>
  C7. When the search service answers with a status code other than 200,
  \<^verbatim>\<open>get_flights\<close> prints \<^verbatim>\<open>Error while connecting to API. Response code: \<close>
  followed by the status code in decimal, and returns \<^verbatim>\<open>None\<close> without raising; when it
  answers with status code 200, \<^verbatim>\<open>get_flights\<close> prints nothing and its result is
  \<^verbatim>\<open>json.loads\<close> of the response body.
\<close>

theorem get_flights_status:
  assumes "requests_get w ''https://api.skypicker.com/flights'' payload = Inr r"
  shows "get_flights w payload =
           (if status_code r \<noteq> 200
            then ([HttpGet ''https://api.skypicker.com/flights'' payload,
                   Print [PStr (''Error while connecting to API. Response code: ''
                                @ str_int (status_code r))]],
                  Inr PNone)
            else ([HttpGet ''https://api.skypicker.com/flights'' payload],
                  json_loads w (resp_text r)))"
  by (simp add: get_flights_def assms returns_def lift_def)

theorem get_flights_status_witness:
  "get_flights (fixed_world 500 example_flights PNone) []
     = ([HttpGet ''https://api.skypicker.com/flights'' [],
         Print [PStr ''Error while connecting to API. Response code: 500'']], Inr PNone) \<and>
   get_flights (fixed_world 200 example_flights PNone) []
     = ([HttpGet ''https://api.skypicker.com/flights'' []], Inr example_flights)"
proof -
  have a: "requests_get (fixed_world 500 example_flights PNone)
             ''https://api.skypicker.com/flights'' []
           = Inr \<lparr>status_code = 500, resp_text = ''flights''\<rparr>"
    and b: "requests_get (fixed_world 200 example_flights PNone)
             ''https://api.skypicker.com/flights'' []
           = Inr \<lparr>status_code = 200, resp_text = ''flights''\<rparr>"
    by (simp_all add: fixed_world_def)
  show ?thesis
    using get_flights_status [OF a] get_flights_status [OF b]
    by (simp add: str_int_500 fixed_world_def)
qed

section \<open>The booking client\<close>

text \<open>
  C1. For all search options with a \<^verbatim>\<open>--bags\<close> value, every flight result with a
  currency and a non-empty \<^verbatim>\<open>data\<close> list whose first flight has a booking token, and
  every passenger list, \<^verbatim>\<open>book_flight\<close> sends exactly one request, a POST to the booking
  service, whose body has the result's currency, the given passengers, the \<^verbatim>\<open>--bags\<close> value
  and the first flight's booking token; it returns the parsed body of the response.
\<close>

theorem book_flight_request:
  assumes "getitem flight_details (PStr ''data'') = Inr (PList (flight # others))"
    and "getitem flight_details (PStr ''currency'') = Inr currency"
    and "getitem flight (PStr ''booking_token'') = Inr token"
    and "dict_get opts ''--bags'' = Inr bags"
  shows "fst (book_flight w opts flight_details ps)
           = [HttpPost ''http://128.199.48.38:8080/booking''
                (PDict [(''currency'', currency), (''passengers'', ps), (''bags'', bags),
                        (''booking_token'', token)])] \<and>
         snd (book_flight w opts flight_details ps)
           = (case requests_post w ''http://128.199.48.38:8080/booking''
                     (PDict [(''currency'', currency), (''passengers'', ps), (''bags'', bags),
                             (''booking_token'', token)]) of
                Inl e \<Rightarrow> Inl e
              | Inr r \<Rightarrow> json_loads w (resp_text r))"
  by (simp add: book_flight_def assms seq_get_def then_do_lift lift_def split: sum.splits)

theorem book_flight_request_witness:
  "fst (book_flight (fixed_world 200 example_flights confirmed_booking) example_options
          example_flights passengers)
     = [HttpPost ''http://128.199.48.38:8080/booking''
          (PDict [(''currency'', PStr ''EUR''), (''passengers'', passengers),
                  (''bags'', PStr ''1''), (''booking_token'', PStr ''token'')])] \<and>
   snd (book_flight (fixed_world 200 example_flights confirmed_booking) example_options
          example_flights passengers)
     = Inr confirmed_booking"
proof -
  have tok: "getitem (PDict [(''price'', PInt 100), (''cityFrom'', PStr ''Prague''),
                   (''cityTo'', PStr ''London''), (''booking_token'', PStr ''token'')])
               (PStr ''booking_token'') = Inr (PStr ''token'')"
    by simp
  from book_flight_request [OF example_flights_items(1) example_flights_items(2) tok
      example_bags, of "fixed_world 200 example_flights confirmed_booking" passengers]
  show ?thesis by (simp add: fixed_world_def)
qed

section \<open>The orchestrator\<close>

text \<open>
  C8. When the search succeeds and the booking service answers with a well-formed response (a
  dictionary with a \<^verbatim>\<open>status\<close>, and with a \<^verbatim>\<open>pnr\<close> when the status is
  \<^verbatim>\<open>confirmed\<close>), \<^verbatim>\<open>search_and_book\<close> ends without an exception, and after the two
  requests it prints the currency, the success line, the price with the currency, the city of
  departure, the city of arrival and the booking number if the status equals
  \<^verbatim>\<open>confirmed\<close>, and only \<^verbatim>\<open>Could not book the flight\<close> for any other status.
\<close>

theorem search_and_book_report:
  assumes "prepare_payload opts = (es0, Inr payload)"
    and "requests_get w ''https://api.skypicker.com/flights'' payload = Inr r"
    and "status_code r = 200"
    and "json_loads w (resp_text r) = Inr flight_details"
    and "getitem flight_details (PStr ''data'') = Inr (PList (flight # others))"
    and "getitem flight_details (PStr ''currency'') = Inr currency"
    and "getitem flight (PStr ''booking_token'') = Inr token"
    and "dict_get opts ''--bags'' = Inr bags"
    and "requests_post w ''http://128.199.48.38:8080/booking''
           (PDict [(''currency'', currency), (''passengers'', passengers), (''bags'', bags),
                   (''booking_token'', token)]) = Inr r'"
    and "json_loads w (resp_text r') = Inr booking"
    and "getitem booking (PStr ''status'') = Inr status"
    and "status = PStr ''confirmed'' \<Longrightarrow>
           getitem flight (PStr ''price'') = Inr price \<and>
           getitem flight (PStr ''cityFrom'') = Inr city_from \<and>
           getitem flight (PStr ''cityTo'') = Inr city_to \<and>
           getitem booking (PStr ''pnr'') = Inr pnr"
  shows "search_and_book w opts =
           ([HttpGet ''https://api.skypicker.com/flights'' payload,
             HttpPost ''http://128.199.48.38:8080/booking''
               (PDict [(''currency'', currency), (''passengers'', passengers), (''bags'', bags),
                       (''booking_token'', token)])]
            @ map Print
                (if status = PStr ''confirmed''
                 then [[currency],
                       [PStr ''Flight succesfully booked''],
                       [PStr ''Price:'', price, currency],
                       [PStr ''Departure:'', city_from],
                       [PStr ''Arrival:'', city_to],
                       [PStr (''Your booking number is '' @ py_str w pnr)]]
                 else [[PStr ''Could not book the flight'']]),
            Inr ())"
proof -
  from assms(1) prepare_payload_events [of opts] have es0: "es0 = []" by simp
  have search: "get_flights w payload
                  = ([HttpGet ''https://api.skypicker.com/flights'' payload], Inr flight_details)"
    by (simp add: get_flights_def assms(2-4) lift_def)
  have book: "book_flight w opts flight_details passengers
                = ([HttpPost ''http://128.199.48.38:8080/booking''
                      (PDict [(''currency'', currency), (''passengers'', passengers),
                              (''bags'', bags), (''booking_token'', token)])],
                   Inr booking)"
    by (simp add: book_flight_def assms(5-10) seq_get_def lift_def)
  show ?thesis
  proof (cases "status = PStr ''confirmed''")
    case True
    with assms(12) have f: "getitem flight (PStr ''price'') = Inr price"
      "getitem flight (PStr ''cityFrom'') = Inr city_from"
      "getitem flight (PStr ''cityTo'') = Inr city_to"
      "getitem booking (PStr ''pnr'') = Inr pnr"
      by simp_all
    show ?thesis
      unfolding search_and_book_def
      by (simp add: assms(1) es0 search book assms(11) True first_flight_field_def assms(5,6) f
          seq_get_def emit_def)
  next
    case False
    show ?thesis
      unfolding search_and_book_def
      by (simp add: assms(1) es0 search book assms(11) False emit_def)
  qed
qed

theorem search_and_book_report_witness:
  "console (fixed_world 200 example_flights confirmed_booking)
     (fst (search_and_book (fixed_world 200 example_flights confirmed_booking) example_options))
     = [''EUR'', ''Flight succesfully booked'', ''Price: 100 EUR'', ''Departure: Prague'',
        ''Arrival: London'', ''Your booking number is ABC123''] \<and>
   snd (search_and_book (fixed_world 200 example_flights confirmed_booking) example_options)
     = Inr () \<and>
   console (fixed_world 200 example_flights pending_booking)
     (fst (search_and_book (fixed_world 200 example_flights pending_booking) example_options))
     = [''Could not book the flight''] \<and>
   snd (search_and_book (fixed_world 200 example_flights pending_booking) example_options)
     = Inr ()"
proof -
  let ?flight = "PDict [(''price'', PInt 100), (''cityFrom'', PStr ''Prague''),
                        (''cityTo'', PStr ''London''), (''booking_token'', PStr ''token'')]"
  have fl: "getitem ?flight (PStr ''booking_token'') = Inr (PStr ''token'')"
    "getitem ?flight (PStr ''price'') = Inr (PInt 100) \<and>
     getitem ?flight (PStr ''cityFrom'') = Inr (PStr ''Prague'') \<and>
     getitem ?flight (PStr ''cityTo'') = Inr (PStr ''London'') \<and>
     getitem confirmed_booking (PStr ''pnr'') = Inr (PStr ''ABC123'')"
    by (simp_all add: confirmed_booking_def)
  have st: "getitem confirmed_booking (PStr ''status'') = Inr (PStr ''confirmed'')"
    "getitem pending_booking (PStr ''status'') = Inr (PStr ''pending'')"
    by (simp_all add: confirmed_booking_def pending_booking_def)
  have w: "requests_get (fixed_world 200 example_flights b) u q
             = Inr \<lparr>status_code = 200, resp_text = ''flights''\<rparr>"
    "requests_post (fixed_world 200 example_flights b) u' q'
             = Inr \<lparr>status_code = 200, resp_text = ''booking''\<rparr>"
    "json_loads (fixed_world 200 example_flights b) ''flights'' = Inr example_flights"
    "json_loads (fixed_world 200 example_flights b) ''booking'' = Inr b"
    for b u q u' q'
    by (simp_all add: fixed_world_def)
  have r: "status_code \<lparr>status_code = 200, resp_text = ''flights''\<rparr> = 200"
    "json_loads (fixed_world 200 example_flights b)
       (resp_text \<lparr>status_code = 200, resp_text = ''flights''\<rparr>) = Inr example_flights"
    "json_loads (fixed_world 200 example_flights b)
       (resp_text \<lparr>status_code = 200, resp_text = ''booking''\<rparr>) = Inr b"
    for b
    by (simp_all add: w)
  have never: "PStr ''pending'' = PStr ''confirmed'' \<Longrightarrow> P" for P
    by simp
  note confirmed = search_and_book_report [OF example_payload w(1) r(1) r(2)
      example_flights_items(1) example_flights_items(2) fl(1) example_bags w(2) r(3) st(1) fl(2)]
  note pending = search_and_book_report [where price = PNone and city_from = PNone
      and city_to = PNone and pnr = PNone, OF example_payload w(1) r(1) r(2)
      example_flights_items(1) example_flights_items(2) fl(1) example_bags w(2) r(3) st(2) never]
  show ?thesis
    by (simp add: confirmed pending console_def printed_def py_str_def str_int_100)
qed

text \<open>
  C9, amended. When the search yields \<^verbatim>\<open>None\<close>, \<^verbatim>\<open>search_and_book\<close> ends with an
  uncaught \<^verbatim>\<open>TypeError\<close> (\<^verbatim>\<open>None\<close> is not subscriptable); when it yields a result
  whose \<^verbatim>\<open>data\<close> list is empty, it ends with an uncaught \<^verbatim>\<open>IndexError\<close>. In both
  cases the run has the events of the search only: no booking request is sent. The
  \<^verbatim>\<open>TypeError\<close> of the first case is not a lookup error (\<^verbatim>\<open>LookupError\<close> covers
  \<^verbatim>\<open>KeyError\<close> and \<^verbatim>\<open>IndexError\<close>), as the last theorem shows on a search answered
  with status 500.
\<close>

theorem search_and_book_absent:
  assumes "prepare_payload opts = (es0, Inr payload)"
    and "get_flights w payload = (es, Inr flight_details)"
    and "flight_details = PNone \<or> getitem flight_details (PStr ''data'') = Inr (PList [])"
  shows "search_and_book w opts
           = (es, Inl (if flight_details = PNone then TypeError else IndexError)) \<and>
         (\<forall>url body. HttpPost url body \<notin> set es)"
proof
  from assms(1) prepare_payload_events [of opts] have es0: "es0 = []" by simp
  from assms(3) have "book_flight w opts flight_details passengers
                        = ([], Inl (if flight_details = PNone then TypeError else IndexError))"
    by (auto simp: book_flight_def seq_get_def)
  then show "search_and_book w opts
               = (es, Inl (if flight_details = PNone then TypeError else IndexError))"
    unfolding search_and_book_def by (simp add: assms(1,2) es0)
  from assms(2) show "\<forall>url body. HttpPost url body \<notin> set es"
    by (cases "requests_get w ''https://api.skypicker.com/flights'' payload")
      (auto simp: get_flights_def returns_def split: if_splits)
qed

theorem search_and_book_absent_witness:
  "snd (search_and_book (fixed_world 500 example_flights confirmed_booking) example_options)
     = Inl TypeError \<and>
   snd (search_and_book
          (fixed_world 200 (PDict [(''currency'', PStr ''EUR''), (''data'', PList [])])
             confirmed_booking)
          example_options)
     = Inl IndexError"
proof -
  let ?p = "[(''v'', PInt 3), (''dateFrom'', PStr ''01/09/2021''),
             (''dateTo'', PStr ''01/09/2021''), (''flyFrom'', PStr ''PRG''),
             (''to'', PStr ''LON''), (''typeFlight'', PStr ''oneway''),
             (''adults'', PInt 1), (''limit'', PInt 1), (''sort'', PStr ''price'')]"
  let ?empty = "PDict [(''currency'', PStr ''EUR''), (''data'', PList [])]"
  have a: "get_flights (fixed_world 500 example_flights confirmed_booking) ?p
             = ([HttpGet ''https://api.skypicker.com/flights'' ?p,
                 Print [PStr (''Error while connecting to API. Response code: '' @ str_int 500)]],
                Inr PNone)"
    by (simp add: get_flights_def fixed_world_def returns_def lift_def)
  have b: "get_flights (fixed_world 200 ?empty confirmed_booking) ?p
             = ([HttpGet ''https://api.skypicker.com/flights'' ?p], Inr ?empty)"
    by (simp add: get_flights_def fixed_world_def lift_def)
  from search_and_book_absent [OF example_payload a] search_and_book_absent [OF example_payload b]
  show ?thesis by simp
qed

theorem search_and_book_absent_counterexample:
  "snd (then_do (prepare_payload example_options)
          (get_flights (fixed_world 500 example_flights confirmed_booking))) = Inr PNone \<and>
   snd (search_and_book (fixed_world 500 example_flights confirmed_booking) example_options)
     = Inl TypeError \<and>
   \<not> is_LookupError TypeError"
  unfolding search_and_book_def
  by (simp add: example_payload get_flights_def fixed_world_def returns_def lift_def
      book_flight_def)

end
